theory Spec2Isabelle
  imports Main
begin

section \<open>JavaScript values used by the client module\<close>

text \<open>
  Strings are character lists. The only string operations the program uses are
  concatenation (template literals), \<open>split(',')\<close>, \<open>trim()\<close>, \<open>includes\<close> on an
  array of strings, and one regular expression, \<open>/:(.*?);/\<close>. A string is truthy
  when it is not empty; an absent (\<open>undefined\<close>/\<open>null\<close>) value is \<open>None\<close>.
\<close>

definition truthy :: "string \<Rightarrow> bool" where
  "truthy s = (s \<noteq> [])"

fun truthy_opt :: "string option \<Rightarrow> bool" where
  "truthy_opt None = False"
| "truthy_opt (Some s) = truthy s"

text \<open>\<open>a || b\<close> on an optional string \<open>a\<close> and a string \<open>b\<close>.\<close>

fun or_else :: "string option \<Rightarrow> string \<Rightarrow> string" where
  "or_else None d = d"
| "or_else (Some s) d = (if truthy s then s else d)"

text \<open>
  White space removed by \<open>String.prototype.trim\<close>, for the characters a \<open>char\<close>
  can hold: tab, line feed, vertical tab, form feed, carriage return, space and
  the no-break space.
\<close>

definition is_ws :: "char \<Rightarrow> bool" where
  "is_ws c = (c \<in> set [CHR 0x09, CHR 0x0A, CHR 0x0B, CHR 0x0C, CHR 0x0D, CHR 0x20, CHR 0xA0])"

definition trim :: "string \<Rightarrow> string" where
  "trim s = rev (dropWhile is_ws (rev (dropWhile is_ws s)))"

text \<open>\<open>s.split(c)\<close> for a one-character separator: never the empty array.\<close>

fun split :: "char \<Rightarrow> string \<Rightarrow> string list" where
  "split c [] = [[]]"
| "split c (x # xs) =
     (if x = c then [] # split c xs
      else (case split c xs of
              [] \<Rightarrow> [[x]]
            | y # ys \<Rightarrow> (x # y) # ys))"

text \<open>
  The regular expression \<open>/:(.*?);/\<close>. \<open>is_line_terminator\<close> are the characters
  that \<open>.\<close> does not match. \<open>lazy_to_semicolon\<close> is the part \<open>(.*?);\<close> matched
  at the head of a string: the shortest run of \<open>.\<close> characters that a semicolon
  follows. \<open>match_mime\<close> tries every start position from the left and gives
  capture group 1 of the first match (\<open>None\<close> when \<open>match\<close> returns \<open>null\<close>).
\<close>

definition is_line_terminator :: "char \<Rightarrow> bool" where
  "is_line_terminator c = (c = CHR 0x0A \<or> c = CHR 0x0D)"

fun lazy_to_semicolon :: "string \<Rightarrow> string option" where
  "lazy_to_semicolon [] = None"
| "lazy_to_semicolon (c # cs) =
     (if c = CHR '';'' then Some []
      else if is_line_terminator c then None
      else map_option ((#) c) (lazy_to_semicolon cs))"

fun match_mime :: "string \<Rightarrow> string option" where
  "match_mime [] = None"
| "match_mime (c # cs) =
     (if c = CHR '':'' then
        (case lazy_to_semicolon cs of
           Some g \<Rightarrow> Some g
         | None \<Rightarrow> match_mime cs)
      else match_mime cs)"

text \<open>
  A thrown value. The handlers read only its \<open>message\<close>: an \<open>Error\<close> has one, and
  so has the \<open>TypeError\<close> of the engine for a property read on \<open>undefined\<close>; the
  \<open>ProgressEvent\<close> that a failed \<open>FileReader\<close> rejects with has none.
\<close>

datatype js_error = Error string | TypeError string | ProgressEvent

fun message :: "js_error \<Rightarrow> string option" where
  "message (Error m) = Some m"
| "message (TypeError m) = Some m"
| "message ProgressEvent = None"

text \<open>\<open>${x}\<close> in a template literal, for an optional string \<open>x\<close>.\<close>

fun template_text :: "string option \<Rightarrow> string" where
  "template_text None = ''undefined''"
| "template_text (Some s) = s"

section \<open>The service module\<close>

subsection \<open>Wire data\<close>

record inline_data =
  mimeType :: string
  data :: string

text \<open>A part of a request or of a response: \<open>{ inlineData?, text? }\<close>.\<close>

record part =
  inlineData :: "inline_data option"
  part_text :: "string option"

text \<open>
  A \<open>File\<close> is known to the program only through \<open>FileReader.readAsDataURL\<close>,
  which either loads a data URL or fails.
\<close>

datatype File = Readable string | Unreadable

datatype AspectRatio = AR_1_1 | AR_16_9 | AR_9_16 | AR_4_3 | AR_3_4

fun aspect_ratio_string :: "AspectRatio \<Rightarrow> string" where
  "aspect_ratio_string AR_1_1 = ''1:1''"
| "aspect_ratio_string AR_16_9 = ''16:9''"
| "aspect_ratio_string AR_9_16 = ''9:16''"
| "aspect_ratio_string AR_4_3 = ''4:3''"
| "aspect_ratio_string AR_3_4 = ''3:4''"

datatype Modality = IMAGE | TEXT

record images_request =
  images_model :: string
  images_prompt :: string
  numberOfImages :: nat
  outputMimeType :: string
  images_aspectRatio :: AspectRatio

record content_request =
  content_model :: string
  content_parts :: "part list"
  responseModalities :: "Modality list"

text \<open>
  The responses. Their fields are optional in the objects the service returns.
  The source reads most of them through \<open>?.\<close>, \<open>||\<close> or a truthiness test; it
  reads \<open>img.image.imageBytes\<close> without a guard, so an absent \<open>image\<close> is a
  \<open>TypeError\<close> there and an absent \<open>imageBytes\<close> the text \<open>undefined\<close> in the
  template literal. The \<open>mimeType\<close> and \<open>data\<close> of an \<open>inlineData\<close> are the two
  strings the template literal of the source splices.
\<close>

record image =
  imageBytes :: "string option"

record generated_image =
  image :: "image option"

record images_response =
  response_generatedImages :: "generated_image list option"

record prompt_feedback =
  blockReason :: "string option"
  blockReasonMessage :: "string option"

record content =
  parts :: "part list option"

record candidate =
  content :: "content option"
  finishReason :: "string option"

record response =
  promptFeedback :: "prompt_feedback option"
  candidates :: "candidate list option"
  response_text :: "string option"

text \<open>
  The remote service, as the two calls the module makes on its client object.
  Each call resolves with a response or rejects with a thrown value.
\<close>

record genai =
  generateImages :: "images_request \<Rightarrow> js_error + images_response"
  generateContent :: "content_request \<Rightarrow> js_error + response"

subsection \<open>The payload encoder\<close>

definition dataUrlToPart :: "string \<Rightarrow> js_error + part" where
  "dataUrlToPart dataUrl =
     (let arr = split CHR '','' dataUrl in
      if length arr < 2 then Inl (Error ''Invalid data URL'')
      else (case match_mime (arr ! 0) of
              None \<Rightarrow> Inl (Error ''Could not parse MIME type from data URL'')
            | Some m \<Rightarrow>
                if \<not> truthy m then Inl (Error ''Could not parse MIME type from data URL'')
                else Inr \<lparr>inlineData = Some \<lparr>mimeType = m, data = arr ! 1\<rparr>,
                          part_text = None\<rparr>))"

definition fileToPart :: "File \<Rightarrow> js_error + part" where
  "fileToPart f =
     (case f of
        Unreadable \<Rightarrow> Inl ProgressEvent
      | Readable dataUrl \<Rightarrow>
          (let arr = split CHR '','' dataUrl in
           if length arr < 2 then Inl (Error ''Invalid data URL'')
           else (case match_mime (arr ! 0) of
                   None \<Rightarrow> Inl (Error ''Could not parse MIME type from data URL'')
                 | Some m \<Rightarrow>
                     if \<not> truthy m then Inl (Error ''Could not parse MIME type from data URL'')
                     else Inr \<lparr>inlineData = Some \<lparr>mimeType = m, data = arr ! 1\<rparr>,
                               part_text = None\<rparr>)))"

subsection \<open>Text to image\<close>

definition text_request :: "string \<Rightarrow> AspectRatio \<Rightarrow> images_request" where
  "text_request prompt aspectRatio =
     \<lparr>images_model = ''imagen-4.0-generate-001'', images_prompt = prompt,
      numberOfImages = 1, outputMimeType = ''image/png'',
      images_aspectRatio = aspectRatio\<rparr>"

text \<open>
  The message of the \<open>TypeError\<close> for \<open>img.image.imageBytes\<close> on an entry
  without \<open>image\<close>. The wording is the engine's; this is the one of V8.
\<close>

definition cannot_read_imageBytes :: string where
  "cannot_read_imageBytes =
     ''Cannot read properties of undefined (reading '' @ [CHR 0x27] @ ''imageBytes''
       @ [CHR 0x27] @ '')''"

text \<open>
  The callback of \<open>generatedImages.map\<close>: it throws on an entry without \<open>image\<close>
  and splices \<open>imageBytes\<close>, present or not, into the template literal.
\<close>

definition image_data_url :: "generated_image \<Rightarrow> js_error + string" where
  "image_data_url img =
     (case image img of
        None \<Rightarrow> Inl (TypeError cannot_read_imageBytes)
      | Some im \<Rightarrow> Inr (''data:image/png;base64,'' @ template_text (imageBytes im)))"

text \<open>\<open>Array.prototype.map\<close> with a callback that may throw: left to right, the first throw ends it.\<close>

fun map_throwing :: "('a \<Rightarrow> js_error + 'b) \<Rightarrow> 'a list \<Rightarrow> js_error + 'b list" where
  "map_throwing f [] = Inr []"
| "map_throwing f (x # xs) =
     (case f x of
        Inl e \<Rightarrow> Inl e
      | Inr y \<Rightarrow>
          (case map_throwing f xs of
             Inl e \<Rightarrow> Inl e
           | Inr ys \<Rightarrow> Inr (y # ys)))"

definition generateImageFromText :: "genai \<Rightarrow> string \<Rightarrow> AspectRatio \<Rightarrow> js_error + string list" where
  "generateImageFromText ai prompt aspectRatio =
     (case generateImages ai (text_request prompt aspectRatio) of
        Inl e \<Rightarrow> Inl e
      | Inr response \<Rightarrow>
          (case response_generatedImages response of
             None \<Rightarrow> Inl (Error ''The AI model did not return any images. This may be due to safety filters or a problem with the prompt.'')
           | Some imgs \<Rightarrow>
               if length imgs = 0 then Inl (Error ''The AI model did not return any images. This may be due to safety filters or a problem with the prompt.'')
               else map_throwing image_data_url imgs))"

subsection \<open>Image and text to image\<close>

text \<open>
  \<open>interpret_response\<close> is the second half of \<open>generateImageFromImageAndText\<close>, from
  the comment \<open>1. Check for prompt blocking first\<close> to the end of the function;
  \<open>without_image\<close> is its last part, from \<open>3. If no image, check for other reasons\<close>
  on, which always throws. \<open>response_text\<close> is what the getter \<open>response.text\<close> of
  the client library returns.
\<close>

definition first_candidate :: "response \<Rightarrow> candidate option" where
  "first_candidate r =
     (case candidates r of
        None \<Rightarrow> None
      | Some [] \<Rightarrow> None
      | Some (c # _) \<Rightarrow> Some c)"

definition imagePartFromResponse :: "response \<Rightarrow> part option" where
  "imagePartFromResponse r =
     (case first_candidate r of
        None \<Rightarrow> None
      | Some c \<Rightarrow>
          (case content c of
             None \<Rightarrow> None
           | Some ct \<Rightarrow>
               (case parts ct of
                  None \<Rightarrow> None
                | Some ps \<Rightarrow> find (\<lambda>p. inlineData p \<noteq> None) ps)))"

definition response_finishReason :: "response \<Rightarrow> string option" where
  "response_finishReason r =
     (case first_candidate r of
        None \<Rightarrow> None
      | Some c \<Rightarrow> finishReason c)"

definition blocked_message :: "string \<Rightarrow> string option \<Rightarrow> string" where
  "blocked_message reason msg =
     ''Request was blocked. Reason: '' @ reason @ ''. '' @ or_else msg ''''"

definition stopped_message :: "string \<Rightarrow> string" where
  "stopped_message reason =
     ''Image generation stopped unexpectedly. Reason: '' @ reason
       @ ''. This often relates to safety settings.''"

definition safety_filter_explanation :: string where
  "safety_filter_explanation =
     ''This can happen due to safety filters or if the request is too complex. Please try rephrasing your prompt to be more direct.''"

definition no_image_message :: "string option \<Rightarrow> string" where
  "no_image_message textFeedback =
     ''The AI model did not return an image. '' @
       (case textFeedback of
          Some t \<Rightarrow>
            if truthy t then ''The model responded with text: '' @ [CHR 0x22] @ t @ [CHR 0x22]
            else safety_filter_explanation
        | None \<Rightarrow> safety_filter_explanation)"

definition data_url :: "inline_data \<Rightarrow> string" where
  "data_url d = ''data:'' @ mimeType d @ '';base64,'' @ data d"

definition blocked :: "response \<Rightarrow> (string \<times> string option) option" where
  "blocked r =
     (case promptFeedback r of
        None \<Rightarrow> None
      | Some pf \<Rightarrow>
          (case blockReason pf of
             None \<Rightarrow> None
           | Some reason \<Rightarrow>
               if truthy reason then Some (reason, blockReasonMessage pf) else None))"

definition without_image :: "response \<Rightarrow> js_error" where
  "without_image r =
     (let textFeedback = map_option trim (response_text r) in
      case response_finishReason r of
        None \<Rightarrow> Error (no_image_message textFeedback)
      | Some reason \<Rightarrow>
          if truthy reason \<and> reason \<noteq> ''STOP'' then Error (stopped_message reason)
          else Error (no_image_message textFeedback))"

definition interpret_response :: "response \<Rightarrow> js_error + string" where
  "interpret_response r =
     (case blocked r of
        Some (reason, msg) \<Rightarrow> Inl (Error (blocked_message reason msg))
      | None \<Rightarrow>
          (case imagePartFromResponse r of
             None \<Rightarrow> Inl (without_image r)
           | Some p \<Rightarrow>
               (case inlineData p of
                  None \<Rightarrow> Inl (without_image r)
                | Some d \<Rightarrow> Inr (data_url d))))"

datatype image_input = FileInput File | DataUrl string

definition encode_input :: "image_input \<Rightarrow> js_error + part" where
  "encode_input originalImage =
     (case originalImage of
        DataUrl u \<Rightarrow> dataUrlToPart u
      | FileInput f \<Rightarrow> fileToPart f)"

definition edit_request :: "part \<Rightarrow> string \<Rightarrow> content_request" where
  "edit_request originalImagePart userPrompt =
     \<lparr>content_model = ''gemini-2.5-flash-image-preview'',
      content_parts = [originalImagePart, \<lparr>inlineData = None, part_text = Some userPrompt\<rparr>],
      responseModalities = [IMAGE, TEXT]\<rparr>"

definition generateImageFromImageAndText :: "genai \<Rightarrow> image_input \<Rightarrow> string \<Rightarrow> js_error + string" where
  "generateImageFromImageAndText ai originalImage userPrompt =
     (case encode_input originalImage of
        Inl e \<Rightarrow> Inl e
      | Inr originalImagePart \<Rightarrow>
          (case generateContent ai (edit_request originalImagePart userPrompt) of
             Inl e \<Rightarrow> Inl e
           | Inr response \<Rightarrow> interpret_response response))"

section \<open>The application state and its handlers\<close>

text \<open>
  The \<open>useState\<close> cells of the \<open>App\<close> component, as one record. A setter call
  is a record update.
\<close>

record app_state =
  prompt :: string
  aspectRatio :: AspectRatio
  generatedImages :: "string list"
  isLoading :: bool
  error :: "string option"
  promptHistory :: "string list"
  uploadedImage :: "File option"
  uploadedImageUrl :: "string option"
  activeImageUrl :: "string option"
  editPrompt :: string
  loadingMessage :: string
  isUploadPanelOpen :: bool

definition initial_state :: app_state where
  "initial_state =
     \<lparr>prompt = [], aspectRatio = AR_1_1, generatedImages = [], isLoading = False,
      error = None, promptHistory = [], uploadedImage = None, uploadedImageUrl = None,
      activeImageUrl = None, editPrompt = [], loadingMessage = ''AI is creating...'',
      isUploadPanelOpen = False\<rparr>"

text \<open>The effect on \<open>generatedImages\<close>: the last image becomes the active one.\<close>

definition sync_active_image :: "app_state \<Rightarrow> app_state" where
  "sync_active_image s =
     (if length (generatedImages s) > 0
      then s\<lparr>activeImageUrl := Some (last (generatedImages s))\<rparr>
      else s)"

text \<open>The \<open>catch\<close> and \<open>finally\<close> blocks, the same in all five handlers.\<close>

definition catch_finally :: "js_error \<Rightarrow> app_state \<Rightarrow> app_state" where
  "catch_finally err s =
     s\<lparr>error := Some (or_else (message err) ''An unknown error occurred.''),
       isLoading := False\<rparr>"

text \<open>
  Every handler is an \<open>async\<close> function with one \<open>await\<close>. It is modelled in two
  halves: \<open>_start\<close> runs up to the awaited call and gives the state then, with
  the call it makes (\<open>None\<close> when the handler returned early); \<open>_finish\<close> runs
  from the settled call to the end, on the state of that moment. The handler
  itself is the two halves around the call.
\<close>

datatype service_call =
    ImageAndText image_input string
  | TextOnly string AspectRatio

definition handleGenerate_start :: "app_state \<Rightarrow> app_state \<times> service_call option" where
  "handleGenerate_start s =
     (if \<not> truthy (trim (prompt s)) \<and> uploadedImage s = None
      then (s\<lparr>error := Some ''Please enter a prompt or upload an image.''\<rparr>, None)
      else
        (let s1 = s\<lparr>isLoading := True, error := None\<rparr>;
             s2 = (if prompt s \<notin> set (promptHistory s) \<and> truthy (trim (prompt s))
                   then s1\<lparr>promptHistory := take 10 (prompt s # promptHistory s)\<rparr>
                   else s1)
         in case uploadedImage s of
              Some f \<Rightarrow> (s2\<lparr>loadingMessage := ''AI is editing...''\<rparr>,
                         Some (ImageAndText (FileInput f) (prompt s)))
            | None \<Rightarrow> (s2\<lparr>loadingMessage := ''AI is creating...''\<rparr>,
                       Some (TextOnly (prompt s) (aspectRatio s)))))"

fun handleGenerate_await :: "genai \<Rightarrow> service_call \<Rightarrow> js_error + string list" where
  "handleGenerate_await ai (ImageAndText img p) =
     (case generateImageFromImageAndText ai img p of
        Inl e \<Rightarrow> Inl e
      | Inr newImage \<Rightarrow> Inr [newImage])"
| "handleGenerate_await ai (TextOnly p ar) = generateImageFromText ai p ar"

definition handleGenerate_finish :: "app_state \<Rightarrow> js_error + string list \<Rightarrow> app_state" where
  "handleGenerate_finish s settled =
     (case settled of
        Inr newImages \<Rightarrow>
          sync_active_image
            (s\<lparr>generatedImages := generatedImages s @ newImages, uploadedImage := None,
               uploadedImageUrl := None, isUploadPanelOpen := False, isLoading := False\<rparr>)
      | Inl err \<Rightarrow> catch_finally err s)"

definition handleGenerate :: "genai \<Rightarrow> app_state \<Rightarrow> app_state" where
  "handleGenerate ai s =
     (case handleGenerate_start s of
        (s1, None) \<Rightarrow> s1
      | (s1, Some c) \<Rightarrow> handleGenerate_finish s1 (handleGenerate_await ai c))"

text \<open>
  The four editing handlers call \<open>generateImageFromImageAndText\<close> on the active
  image; their \<open>_start\<close> gives the two arguments of that call.
\<close>

definition upscalePrompt :: string where
  "upscalePrompt =
     ''Upscale this image, increasing its resolution and enhancing details. Make it sharper and clearer without altering the content.''"

definition handleUpscale_start :: "app_state \<Rightarrow> app_state \<times> (string \<times> string) option" where
  "handleUpscale_start s =
     (case activeImageUrl s of
        None \<Rightarrow> (s\<lparr>error := Some ''No active image to upscale.''\<rparr>, None)
      | Some url \<Rightarrow>
          if \<not> truthy url then (s\<lparr>error := Some ''No active image to upscale.''\<rparr>, None)
          else (s\<lparr>isLoading := True, error := None, loadingMessage := ''Upscaling image...''\<rparr>,
                Some (url, upscalePrompt)))"

definition handleUpscale_finish :: "app_state \<Rightarrow> js_error + string \<Rightarrow> app_state" where
  "handleUpscale_finish s settled =
     (case settled of
        Inr newImage \<Rightarrow> s\<lparr>activeImageUrl := Some newImage, isLoading := False\<rparr>
      | Inl err \<Rightarrow> catch_finally err s)"

definition handleUpscale :: "genai \<Rightarrow> app_state \<Rightarrow> app_state" where
  "handleUpscale ai s =
     (case handleUpscale_start s of
        (s1, None) \<Rightarrow> s1
      | (s1, Some (url, p)) \<Rightarrow>
          handleUpscale_finish s1 (generateImageFromImageAndText ai (DataUrl url) p))"

definition handleApplyFilter_start :: "string \<Rightarrow> app_state \<Rightarrow> app_state \<times> (string \<times> string) option" where
  "handleApplyFilter_start filterPrompt s =
     (case activeImageUrl s of
        None \<Rightarrow> (s\<lparr>error := Some ''No active image to apply a filter to.''\<rparr>, None)
      | Some url \<Rightarrow>
          if \<not> truthy url then (s\<lparr>error := Some ''No active image to apply a filter to.''\<rparr>, None)
          else (s\<lparr>isLoading := True, error := None, loadingMessage := ''Applying filter...''\<rparr>,
                Some (url, filterPrompt)))"

definition handleApplyFilter_finish :: "app_state \<Rightarrow> js_error + string \<Rightarrow> app_state" where
  "handleApplyFilter_finish s settled =
     (case settled of
        Inr newImage \<Rightarrow> s\<lparr>activeImageUrl := Some newImage, isLoading := False\<rparr>
      | Inl err \<Rightarrow> catch_finally err s)"

definition handleApplyFilter :: "genai \<Rightarrow> string \<Rightarrow> app_state \<Rightarrow> app_state" where
  "handleApplyFilter ai filterPrompt s =
     (case handleApplyFilter_start filterPrompt s of
        (s1, None) \<Rightarrow> s1
      | (s1, Some (url, p)) \<Rightarrow>
          handleApplyFilter_finish s1 (generateImageFromImageAndText ai (DataUrl url) p))"

definition handleEditWithPrompt_start :: "app_state \<Rightarrow> app_state \<times> (string \<times> string) option" where
  "handleEditWithPrompt_start s =
     (case activeImageUrl s of
        None \<Rightarrow> (s\<lparr>error := Some ''No active image to edit.''\<rparr>, None)
      | Some url \<Rightarrow>
          if \<not> truthy url then (s\<lparr>error := Some ''No active image to edit.''\<rparr>, None)
          else if \<not> truthy (trim (editPrompt s))
          then (s\<lparr>error := Some ''Please enter an edit instruction.''\<rparr>, None)
          else (s\<lparr>isLoading := True, error := None, loadingMessage := ''Applying your edit...''\<rparr>,
                Some (url, editPrompt s)))"

definition handleEditWithPrompt_finish :: "app_state \<Rightarrow> js_error + string \<Rightarrow> app_state" where
  "handleEditWithPrompt_finish s settled =
     (case settled of
        Inr newImage \<Rightarrow> s\<lparr>activeImageUrl := Some newImage, editPrompt := [], isLoading := False\<rparr>
      | Inl err \<Rightarrow> catch_finally err s)"

definition handleEditWithPrompt :: "genai \<Rightarrow> app_state \<Rightarrow> app_state" where
  "handleEditWithPrompt ai s =
     (case handleEditWithPrompt_start s of
        (s1, None) \<Rightarrow> s1
      | (s1, Some (url, p)) \<Rightarrow>
          handleEditWithPrompt_finish s1 (generateImageFromImageAndText ai (DataUrl url) p))"

definition handleChangeAspectRatio_start :: "AspectRatio \<Rightarrow> app_state \<Rightarrow> app_state \<times> (string \<times> string) option" where
  "handleChangeAspectRatio_start newAspectRatio s =
     (case activeImageUrl s of
        None \<Rightarrow> (s\<lparr>error := Some ''No active image to edit.''\<rparr>, None)
      | Some url \<Rightarrow>
          if \<not> truthy url then (s\<lparr>error := Some ''No active image to edit.''\<rparr>, None)
          else (s\<lparr>isLoading := True, error := None, loadingMessage := ''Changing aspect ratio...''\<rparr>,
                Some (url, ''Render this image at a new aspect ratio of '' @ aspect_ratio_string newAspectRatio
                           @ ''. Intelligently expand the scene and composition to fill the new dimensions. Do not crop, stretch, or distort the original subject.'')))"

definition handleChangeAspectRatio_finish :: "app_state \<Rightarrow> js_error + string \<Rightarrow> app_state" where
  "handleChangeAspectRatio_finish s settled =
     (case settled of
        Inr newImage \<Rightarrow> s\<lparr>activeImageUrl := Some newImage, isLoading := False\<rparr>
      | Inl err \<Rightarrow> catch_finally err s)"

definition handleChangeAspectRatio :: "genai \<Rightarrow> AspectRatio \<Rightarrow> app_state \<Rightarrow> app_state" where
  "handleChangeAspectRatio ai newAspectRatio s =
     (case handleChangeAspectRatio_start newAspectRatio s of
        (s1, None) \<Rightarrow> s1
      | (s1, Some (url, p)) \<Rightarrow>
          handleChangeAspectRatio_finish s1 (generateImageFromImageAndText ai (DataUrl url) p))"

text \<open>The handlers without a service call.\<close>

definition handleImageUpload :: "(File \<times> string) option \<Rightarrow> app_state \<Rightarrow> app_state" where
  "handleImageUpload chosen s =
     (case chosen of
        None \<Rightarrow> s
      | Some (f, objectUrl) \<Rightarrow> s\<lparr>uploadedImage := Some f, uploadedImageUrl := Some objectUrl\<rparr>)"

definition handleRemoveUploadedImage :: "app_state \<Rightarrow> app_state" where
  "handleRemoveUploadedImage s = s\<lparr>uploadedImage := None, uploadedImageUrl := None\<rparr>"

section \<open>Vocabulary of the properties\<close>

text \<open>
  The service answered the request that \<open>generateImageFromImageAndText\<close> sent for
  this image and this prompt with the response \<open>r\<close>: the image was encoded and
  the call resolved.
\<close>

definition service_responds :: "genai \<Rightarrow> image_input \<Rightarrow> string \<Rightarrow> response \<Rightarrow> bool" where
  "service_responds ai originalImage userPrompt r =
     (case encode_input originalImage of
        Inl _ \<Rightarrow> False
      | Inr p \<Rightarrow> generateContent ai (edit_request p userPrompt) = Inr r)"

text \<open>The response names no block reason: no prompt feedback, or none that is truthy.\<close>

definition no_block_reason :: "response \<Rightarrow> bool" where
  "no_block_reason r =
     (case promptFeedback r of
        None \<Rightarrow> True
      | Some pf \<Rightarrow> \<not> truthy_opt (blockReason pf))"

text \<open>The parts of the first candidate, the empty list when any link is missing.\<close>

definition first_parts :: "response \<Rightarrow> part list" where
  "first_parts r =
     (case candidates r of
        None \<Rightarrow> []
      | Some [] \<Rightarrow> []
      | Some (c # _) \<Rightarrow>
          (case content c of
             None \<Rightarrow> []
           | Some ct \<Rightarrow> (case parts ct of None \<Rightarrow> [] | Some ps \<Rightarrow> ps)))"

definition no_inline_part :: "response \<Rightarrow> bool" where
  "no_inline_part r = list_all (\<lambda>p. inlineData p = None) (first_parts r)"

text \<open>The five outcomes of the edit request once the service has answered.\<close>

datatype outcome_class = Artifact | PromptBlock | FinishReason | TextFeedback | NoImage

fun in_class :: "outcome_class \<Rightarrow> js_error + string \<Rightarrow> bool" where
  "in_class Artifact res = (\<exists>d. res = Inr (data_url d))"
| "in_class PromptBlock res =
     (\<exists>reason msg. truthy reason \<and> res = Inl (Error (blocked_message reason msg)))"
| "in_class FinishReason res =
     (\<exists>reason. truthy reason \<and> reason \<noteq> ''STOP'' \<and> res = Inl (Error (stopped_message reason)))"
| "in_class TextFeedback res =
     (\<exists>t. truthy t \<and> res = Inl (Error (no_image_message (Some t))))"
| "in_class NoImage res = (res = Inl (Error (no_image_message None)))"

text \<open>A service that answers every edit request with the same response.\<close>

definition answering :: "response \<Rightarrow> genai" where
  "answering r =
     \<lparr>generateImages = (\<lambda>_. Inr \<lparr>response_generatedImages = None\<rparr>),
      generateContent = (\<lambda>_. Inr r)\<rparr>"




text \<open>A service that answers every text request with the images of these bytes.\<close>

definition drawing :: "string list \<Rightarrow> genai" where
  "drawing bytes =
     \<lparr>generateImages =
        (\<lambda>_. Inr \<lparr>response_generatedImages =
                  Some (map (\<lambda>b. \<lparr>image = Some \<lparr>imageBytes = Some b\<rparr>\<rparr>) bytes)\<rparr>),
      generateContent = (\<lambda>_. Inl (Error ''Failed to fetch''))\<rparr>"

text \<open>A service whose every call rejects.\<close>

definition rejecting :: "js_error \<Rightarrow> genai" where
  "rejecting e = \<lparr>generateImages = (\<lambda>_. Inl e), generateContent = (\<lambda>_. Inl e)\<rparr>"

definition png :: inline_data where
  "png = \<lparr>mimeType = ''image/png'', data = ''QUJD''\<rparr>"

text \<open>
  A response with one candidate: its parts, its finish reason, the prompt
  feedback and the text the getter gives.
\<close>

definition response_of ::
  "part list \<Rightarrow> string option \<Rightarrow> prompt_feedback option \<Rightarrow> string option \<Rightarrow> response" where
  "response_of ps reason feedback txt =
     \<lparr>promptFeedback = feedback,
      candidates = Some [\<lparr>content = Some \<lparr>parts = Some ps\<rparr>, finishReason = reason\<rparr>],
      response_text = txt\<rparr>"

text \<open>The state after a first image has been made and shown.\<close>

definition showing_image :: app_state where
  "showing_image =
     initial_state\<lparr>generatedImages := [''data:image/png;base64,QUJD''],
                    activeImageUrl := Some ''data:image/png;base64,QUJD''\<rparr>"

definition text_part :: "string \<Rightarrow> part" where
  "text_part t = \<lparr>inlineData = None, part_text = Some t\<rparr>"

definition image_part :: "inline_data \<Rightarrow> part" where
  "image_part d = \<lparr>inlineData = Some d, part_text = None\<rparr>"

text \<open>
  The five handlers that call the service, under one name each, so that a
  property can speak of all of them: the state and the call at the \<open>await\<close>, the
  whole handler, and the error the awaited call throws, if it throws.
\<close>

datatype handler =
    HandleGenerate
  | HandleUpscale
  | HandleApplyFilter string
  | HandleEditWithPrompt
  | HandleChangeAspectRatio AspectRatio

definition editing_call :: "app_state \<times> (string \<times> string) option \<Rightarrow> app_state \<times> service_call option" where
  "editing_call started =
     (case started of
        (s1, None) \<Rightarrow> (s1, None)
      | (s1, Some (url, p)) \<Rightarrow> (s1, Some (ImageAndText (DataUrl url) p)))"

fun handler_start :: "handler \<Rightarrow> app_state \<Rightarrow> app_state \<times> service_call option" where
  "handler_start HandleGenerate s = handleGenerate_start s"
| "handler_start HandleUpscale s = editing_call (handleUpscale_start s)"
| "handler_start (HandleApplyFilter filterPrompt) s = editing_call (handleApplyFilter_start filterPrompt s)"
| "handler_start HandleEditWithPrompt s = editing_call (handleEditWithPrompt_start s)"
| "handler_start (HandleChangeAspectRatio newAspectRatio) s =
     editing_call (handleChangeAspectRatio_start newAspectRatio s)"

fun run_handler :: "genai \<Rightarrow> handler \<Rightarrow> app_state \<Rightarrow> app_state" where
  "run_handler ai HandleGenerate s = handleGenerate ai s"
| "run_handler ai HandleUpscale s = handleUpscale ai s"
| "run_handler ai (HandleApplyFilter filterPrompt) s = handleApplyFilter ai filterPrompt s"
| "run_handler ai HandleEditWithPrompt s = handleEditWithPrompt ai s"
| "run_handler ai (HandleChangeAspectRatio newAspectRatio) s =
     handleChangeAspectRatio ai newAspectRatio s"

fun call_failure :: "genai \<Rightarrow> service_call \<Rightarrow> js_error option" where
  "call_failure ai (ImageAndText img p) =
     (case generateImageFromImageAndText ai img p of Inl e \<Rightarrow> Some e | Inr _ \<Rightarrow> None)"
| "call_failure ai (TextOnly p ar) =
     (case generateImageFromText ai p ar of Inl e \<Rightarrow> Some e | Inr _ \<Rightarrow> None)"

text \<open>
  What can happen to the state: the setters the components call directly, the
  handlers without a service call, the start of a handler with one, and the
  settling of an awaited call, with any result and at any later moment.
\<close>

datatype event =
    SetPrompt string
  | SetAspectRatio AspectRatio
  | SetEditPrompt string
  | SetIsUploadPanelOpen bool
  | DismissError
  | ImageUpload "(File \<times> string) option"
  | RemoveUploadedImage
  | Start handler
  | GenerateSettled "js_error + string list"
  | UpscaleSettled "js_error + string"
  | ApplyFilterSettled "js_error + string"
  | EditWithPromptSettled "js_error + string"
  | ChangeAspectRatioSettled "js_error + string"

fun step :: "event \<Rightarrow> app_state \<Rightarrow> app_state" where
  "step (SetPrompt v) s = s\<lparr>prompt := v\<rparr>"
| "step (SetAspectRatio v) s = s\<lparr>aspectRatio := v\<rparr>"
| "step (SetEditPrompt v) s = s\<lparr>editPrompt := v\<rparr>"
| "step (SetIsUploadPanelOpen v) s = s\<lparr>isUploadPanelOpen := v\<rparr>"
| "step DismissError s = s\<lparr>error := None\<rparr>"
| "step (ImageUpload chosen) s = handleImageUpload chosen s"
| "step RemoveUploadedImage s = handleRemoveUploadedImage s"
| "step (Start h) s = fst (handler_start h s)"
| "step (GenerateSettled settled) s = handleGenerate_finish s settled"
| "step (UpscaleSettled settled) s = handleUpscale_finish s settled"
| "step (ApplyFilterSettled settled) s = handleApplyFilter_finish s settled"
| "step (EditWithPromptSettled settled) s = handleEditWithPrompt_finish s settled"
| "step (ChangeAspectRatioSettled settled) s = handleChangeAspectRatio_finish s settled"

fun run :: "event list \<Rightarrow> app_state \<Rightarrow> app_state" where
  "run [] s = s"
| "run (e # es) s = run es (step e s)"

section \<open>Properties of the response interpretation\<close>

lemma responded:
  "service_responds ai originalImage userPrompt r \<Longrightarrow>
   generateImageFromImageAndText ai originalImage userPrompt = interpret_response r"
  by (auto simp: service_responds_def generateImageFromImageAndText_def split: sum.splits)

lemma blocked_None_iff: "blocked r = None \<longleftrightarrow> no_block_reason r"
  by (auto simp: blocked_def no_block_reason_def split: option.splits)

lemma in_class_unique: "in_class c res \<Longrightarrow> in_class c' res \<Longrightarrow> c = c'"
  by (cases c; cases c')
     (auto simp: blocked_message_def stopped_message_def no_image_message_def
        safety_filter_explanation_def truthy_def)

lemma no_image_message_falsy:
  "\<not> truthy t \<Longrightarrow> no_image_message (Some t) = no_image_message None"
  by (simp add: no_image_message_def)

lemma without_image_stopped:
  "response_finishReason r = Some reason \<Longrightarrow> truthy reason \<Longrightarrow> reason \<noteq> ''STOP'' \<Longrightarrow>
   without_image r = Error (stopped_message reason)"
  by (simp add: without_image_def)

lemma without_image_no_stop:
  "response_finishReason r = None \<or> response_finishReason r = Some ''STOP'' \<or>
     response_finishReason r = Some [] \<Longrightarrow>
   without_image r = Error (no_image_message (map_option trim (response_text r)))"
  by (auto simp: without_image_def truthy_def)

lemma without_image_cases:
  "(\<exists>reason. truthy reason \<and> reason \<noteq> ''STOP'' \<and> without_image r = Error (stopped_message reason))
   \<or> (\<exists>t. truthy t \<and> without_image r = Error (no_image_message (Some t)))
   \<or> without_image r = Error (no_image_message None)"
proof (cases "\<exists>reason. response_finishReason r = Some reason \<and> truthy reason \<and> reason \<noteq> ''STOP''")
  case True
  then show ?thesis by (auto simp: without_image_stopped)
next
  case False
  then have "response_finishReason r = None \<or> response_finishReason r = Some ''STOP'' \<or>
     response_finishReason r = Some []"
    by (cases "response_finishReason r") (auto simp: truthy_def)
  then have w: "without_image r = Error (no_image_message (map_option trim (response_text r)))"
    by (rule without_image_no_stop)
  show ?thesis
  proof (cases "map_option trim (response_text r)")
    case None
    with w show ?thesis by simp
  next
    case (Some t)
    with w show ?thesis
      by (cases "truthy t") (auto simp: no_image_message_falsy)
  qed
qed

lemma interpret_response_classified: "\<exists>c. in_class c (interpret_response r)"
proof (cases "blocked r")
  case (Some b)
  then obtain reason msg where b: "blocked r = Some (reason, msg)" by (cases b) auto
  then have "truthy reason"
    by (auto simp: blocked_def split: option.splits if_splits)
  with b have "in_class PromptBlock (interpret_response r)"
    by (auto simp: interpret_response_def)
  then show ?thesis ..
next
  case None
  show ?thesis
  proof (cases "\<exists>p d. imagePartFromResponse r = Some p \<and> inlineData p = Some d")
    case True
    with None have "in_class Artifact (interpret_response r)"
      by (auto simp: interpret_response_def)
    then show ?thesis ..
  next
    case False
    with None have res: "interpret_response r = Inl (without_image r)"
      by (auto simp: interpret_response_def split: option.splits)
    consider (stop) reason where "truthy reason" "reason \<noteq> ''STOP''"
        "without_image r = Error (stopped_message reason)"
      | (feedback) t where "truthy t" "without_image r = Error (no_image_message (Some t))"
      | (none) "without_image r = Error (no_image_message None)"
      using without_image_cases [of r] by blast
    then show ?thesis
    proof cases
      case stop
      with res have "in_class FinishReason (interpret_response r)" by auto
      then show ?thesis ..
    next
      case feedback
      with res have "in_class TextFeedback (interpret_response r)" by auto
      then show ?thesis ..
    next
      case none
      with res have "in_class NoImage (interpret_response r)" by auto
      then show ?thesis ..
    qed
  qed
qed

text \<open>
  Claim C1. Whatever response the service gives, \<open>generateImageFromImageAndText\<close>
  ends in exactly one of five ways: it returns a data URL, or it throws the
  prompt-block error, the finish-reason error, the text-feedback error or the
  generic no-image error.
\<close>

theorem response_classified:
  assumes "service_responds ai originalImage userPrompt r"
  shows "\<exists>!c. in_class c (generateImageFromImageAndText ai originalImage userPrompt)"
proof -
  have "\<exists>c. in_class c (generateImageFromImageAndText ai originalImage userPrompt)"
    using assms interpret_response_classified [of r] by (simp add: responded)
  then show ?thesis
    by (blast intro: in_class_unique)
qed

lemma encode_png: "encode_input (DataUrl ''data:image/png;base64,QUJD'') = Inr (image_part png)"
  by (simp add: encode_input_def dataUrlToPart_def image_part_def png_def truthy_def
      is_line_terminator_def)

lemma answering_responds:
  "service_responds (answering r) (DataUrl ''data:image/png;base64,QUJD'') p r"
  by (simp add: service_responds_def encode_png answering_def)

theorem response_classified_witness:
  "service_responds (answering (response_of [image_part png] (Some ''STOP'') None None))
     (DataUrl ''data:image/png;base64,QUJD'') ''Make the sky purple''
     (response_of [image_part png] (Some ''STOP'') None None)
   \<and> (\<exists>!c. in_class c
         (generateImageFromImageAndText (answering (response_of [image_part png] (Some ''STOP'') None None))
            (DataUrl ''data:image/png;base64,QUJD'') ''Make the sky purple''))"
  using response_classified [OF answering_responds] answering_responds by blast

lemma blocked_Some:
  "promptFeedback r = Some pf \<Longrightarrow> blockReason pf = Some reason \<Longrightarrow> truthy reason \<Longrightarrow>
   blocked r = Some (reason, blockReasonMessage pf)"
  by (simp add: blocked_def)

lemma imagePartFromResponse_find:
  "imagePartFromResponse r = find (\<lambda>p. inlineData p \<noteq> None) (first_parts r)"
  by (simp add: imagePartFromResponse_def first_candidate_def first_parts_def
      split: option.splits list.splits)

lemma find_first:
  "\<forall>q\<in>set before. \<not> P q \<Longrightarrow> P x \<Longrightarrow> find P (before @ x # rest) = Some x"
  by (induction before) auto

lemma find_none: "list_all (\<lambda>q. \<not> P q) xs \<Longrightarrow> find P xs = None"
  by (induction xs) auto

lemma interpret_response_without_image:
  assumes "no_block_reason r" and "no_inline_part r"
  shows "interpret_response r = Inl (without_image r)"
proof -
  have "blocked r = None"
    using assms(1) by (simp add: blocked_None_iff)
  moreover have "imagePartFromResponse r = None"
    using assms(2) by (simp add: imagePartFromResponse_find no_inline_part_def find_none)
  ultimately show ?thesis
    by (simp add: interpret_response_def)
qed

text \<open>
  Claim C2. When the prompt feedback of the response carries a block reason
  (present and truthy: the reasons are the non-empty names of an enumeration),
  the call throws the "Request was blocked" error that names the reason,
  followed by the block message when there is one. Nothing is assumed about the
  candidates, so this holds also when the response carries an image part.
\<close>

theorem prompt_block_first:
  assumes "service_responds ai originalImage userPrompt r"
    and "promptFeedback r = Some pf"
    and "blockReason pf = Some reason"
    and "truthy reason"
  shows "generateImageFromImageAndText ai originalImage userPrompt =
           Inl (Error (''Request was blocked. Reason: '' @ reason @ ''. ''
                         @ or_else (blockReasonMessage pf) []))"
proof -
  have "interpret_response r = Inl (Error (blocked_message reason (blockReasonMessage pf)))"
    using assms(2-4) by (simp add: interpret_response_def blocked_Some)
  with assms(1) show ?thesis
    by (simp add: responded blocked_message_def)
qed

theorem prompt_block_first_witness:
  "service_responds
     (answering (response_of [image_part png] (Some ''STOP'')
        (Some \<lparr>blockReason = Some ''SAFETY'', blockReasonMessage = None\<rparr>) None))
     (DataUrl ''data:image/png;base64,QUJD'') ''Make the sky purple''
     (response_of [image_part png] (Some ''STOP'')
        (Some \<lparr>blockReason = Some ''SAFETY'', blockReasonMessage = None\<rparr>) None)
   \<and> inlineData (hd (first_parts (response_of [image_part png] (Some ''STOP'')
        (Some \<lparr>blockReason = Some ''SAFETY'', blockReasonMessage = None\<rparr>) None))) = Some png
   \<and> generateImageFromImageAndText
       (answering (response_of [image_part png] (Some ''STOP'')
          (Some \<lparr>blockReason = Some ''SAFETY'', blockReasonMessage = None\<rparr>) None))
       (DataUrl ''data:image/png;base64,QUJD'') ''Make the sky purple''
     = Inl (Error ''Request was blocked. Reason: SAFETY. '')"
  using prompt_block_first [OF answering_responds,
      of "response_of [image_part png] (Some ''STOP'')
            (Some \<lparr>blockReason = Some ''SAFETY'', blockReasonMessage = None\<rparr>) None"
         "\<lparr>blockReason = Some ''SAFETY'', blockReasonMessage = None\<rparr>" "''SAFETY''"
         "''Make the sky purple''"]
    answering_responds
  by (simp add: response_of_def first_parts_def image_part_def truthy_def)

text \<open>
  Claim C3. When the response names no block reason and the parts of its first
  candidate contain a part with \<open>inlineData\<close>, the call returns
  \<open>"data:" + mimeType + ";base64," + data\<close> for the first such part.
\<close>

theorem image_part_returned:
  assumes "service_responds ai originalImage userPrompt r"
    and "no_block_reason r"
    and "first_parts r = before @ p # rest"
    and "\<forall>q\<in>set before. inlineData q = None"
    and "inlineData p = Some d"
  shows "generateImageFromImageAndText ai originalImage userPrompt =
           Inr (''data:'' @ mimeType d @ '';base64,'' @ data d)"
proof -
  have "blocked r = None"
    using assms(2) by (simp add: blocked_None_iff)
  moreover have "imagePartFromResponse r = Some p"
    using assms(3-5) by (simp add: imagePartFromResponse_find find_first)
  ultimately have "interpret_response r = Inr (data_url d)"
    using assms(5) by (simp add: interpret_response_def)
  with assms(1) show ?thesis
    by (simp add: responded data_url_def)
qed

theorem image_part_returned_witness:
  "service_responds
     (answering (response_of [text_part ''Here it is.'', image_part png, image_part \<lparr>mimeType = ''image/jpeg'', data = ''REVG''\<rparr>]
        (Some ''STOP'') None (Some ''Here it is.'')))
     (DataUrl ''data:image/png;base64,QUJD'') ''Make the sky purple''
     (response_of [text_part ''Here it is.'', image_part png, image_part \<lparr>mimeType = ''image/jpeg'', data = ''REVG''\<rparr>]
        (Some ''STOP'') None (Some ''Here it is.''))
   \<and> generateImageFromImageAndText
       (answering (response_of [text_part ''Here it is.'', image_part png, image_part \<lparr>mimeType = ''image/jpeg'', data = ''REVG''\<rparr>]
          (Some ''STOP'') None (Some ''Here it is.'')))
       (DataUrl ''data:image/png;base64,QUJD'') ''Make the sky purple''
     = Inr ''data:image/png;base64,QUJD''"
  using image_part_returned [OF answering_responds,
      of "response_of [text_part ''Here it is.'', image_part png, image_part \<lparr>mimeType = ''image/jpeg'', data = ''REVG''\<rparr>]
            (Some ''STOP'') None (Some ''Here it is.'')"
         "[text_part ''Here it is.'']" "image_part png"
         "[image_part \<lparr>mimeType = ''image/jpeg'', data = ''REVG''\<rparr>]" png
         "''Make the sky purple''"]
    answering_responds
  by (simp add: response_of_def first_parts_def no_block_reason_def image_part_def text_part_def
      png_def)

text \<open>
  Claim C4. When the response names no block reason and has no part with
  \<open>inlineData\<close>, and its first candidate has a finish reason (present and
  truthy) other than \<open>STOP\<close>, the call throws the "Image generation stopped
  unexpectedly." error that names the finish reason.
\<close>

theorem finish_reason_reported:
  assumes "service_responds ai originalImage userPrompt r"
    and "no_block_reason r"
    and "no_inline_part r"
    and "candidates r = Some (c # cs)"
    and "finishReason c = Some reason"
    and "truthy reason"
    and "reason \<noteq> ''STOP''"
  shows "generateImageFromImageAndText ai originalImage userPrompt =
           Inl (Error (''Image generation stopped unexpectedly. Reason: '' @ reason
                         @ ''. This often relates to safety settings.''))"
proof -
  have "response_finishReason r = Some reason"
    using assms(4,5) by (simp add: response_finishReason_def first_candidate_def)
  then have "without_image r = Error (stopped_message reason)"
    using assms(6,7) by (rule without_image_stopped)
  then have "interpret_response r = Inl (Error (stopped_message reason))"
    using assms(2,3) by (simp add: interpret_response_without_image)
  with assms(1) show ?thesis
    by (simp add: responded stopped_message_def)
qed

theorem finish_reason_reported_witness:
  "service_responds
     (answering (response_of [text_part ''I would rather not.''] (Some ''IMAGE_SAFETY'') None
        (Some ''I would rather not.'')))
     (DataUrl ''data:image/png;base64,QUJD'') ''Make the sky purple''
     (response_of [text_part ''I would rather not.''] (Some ''IMAGE_SAFETY'') None
        (Some ''I would rather not.''))
   \<and> generateImageFromImageAndText
       (answering (response_of [text_part ''I would rather not.''] (Some ''IMAGE_SAFETY'') None
          (Some ''I would rather not.'')))
       (DataUrl ''data:image/png;base64,QUJD'') ''Make the sky purple''
     = Inl (Error ''Image generation stopped unexpectedly. Reason: IMAGE_SAFETY. This often relates to safety settings.'')"
  using finish_reason_reported [OF answering_responds,
      of "response_of [text_part ''I would rather not.''] (Some ''IMAGE_SAFETY'') None
            (Some ''I would rather not.'')"
         "\<lparr>content = Some \<lparr>parts = Some [text_part ''I would rather not.'']\<rparr>,
           finishReason = Some ''IMAGE_SAFETY''\<rparr>" "[]" "''IMAGE_SAFETY''"
         "''Make the sky purple''"]
    answering_responds
  by (simp add: response_of_def first_parts_def no_block_reason_def no_inline_part_def
      text_part_def truthy_def)

text \<open>
  Claim C5. When the response names no block reason and has no part with
  \<open>inlineData\<close>, and the finish reason of its first candidate is absent or
  \<open>STOP\<close>, the call throws: with a message that quotes the trimmed text of the
  response when that is not empty, and with the safety-filter explanation
  otherwise (no text, or only white space).
\<close>

theorem no_image_explained:
  assumes "service_responds ai originalImage userPrompt r"
    and "no_block_reason r"
    and "no_inline_part r"
    and "response_finishReason r = None \<or> response_finishReason r = Some ''STOP''"
  shows "generateImageFromImageAndText ai originalImage userPrompt =
           Inl (Error (''The AI model did not return an image. '' @
             (case response_text r of
                None \<Rightarrow> safety_filter_explanation
              | Some t \<Rightarrow>
                  if trim t = [] then safety_filter_explanation
                  else ''The model responded with text: '' @ [CHR 0x22] @ trim t @ [CHR 0x22])))"
proof -
  have "without_image r = Error (no_image_message (map_option trim (response_text r)))"
    using assms(4) by (intro without_image_no_stop) blast
  then have "interpret_response r = Inl (Error (no_image_message (map_option trim (response_text r))))"
    using assms(2,3) by (simp add: interpret_response_without_image)
  with assms(1) show ?thesis
    by (simp add: responded no_image_message_def truthy_def split: option.splits)
qed

theorem no_image_explained_witness:
  "service_responds
     (answering (response_of [text_part ''  I cannot edit this image. ''] (Some ''STOP'') None
        (Some ''  I cannot edit this image. '')))
     (DataUrl ''data:image/png;base64,QUJD'') ''Make the sky purple''
     (response_of [text_part ''  I cannot edit this image. ''] (Some ''STOP'') None
        (Some ''  I cannot edit this image. ''))
   \<and> generateImageFromImageAndText
       (answering (response_of [text_part ''  I cannot edit this image. ''] (Some ''STOP'') None
          (Some ''  I cannot edit this image. '')))
       (DataUrl ''data:image/png;base64,QUJD'') ''Make the sky purple''
     = Inl (Error (''The AI model did not return an image. The model responded with text: ''
                   @ [CHR 0x22] @ ''I cannot edit this image.'' @ [CHR 0x22]))
   \<and> generateImageFromImageAndText
       (answering \<lparr>promptFeedback = None, candidates = None, response_text = None\<rparr>)
       (DataUrl ''data:image/png;base64,QUJD'') ''Make the sky purple''
     = Inl (Error (''The AI model did not return an image. '' @ safety_filter_explanation))"
  using no_image_explained [OF answering_responds,
      of "response_of [text_part ''  I cannot edit this image. ''] (Some ''STOP'') None
            (Some ''  I cannot edit this image. '')" "''Make the sky purple''"]
    no_image_explained [OF answering_responds,
      of "\<lparr>promptFeedback = None, candidates = None, response_text = None\<rparr>"
         "''Make the sky purple''"]
    answering_responds
  by (simp add: response_of_def first_parts_def no_block_reason_def no_inline_part_def
      text_part_def response_finishReason_def first_candidate_def trim_def is_ws_def)

section \<open>Properties of the text request and of the payload encoder\<close>





lemma split_no_separator: "c \<notin> set xs \<Longrightarrow> split c xs = [xs]"
  by (induction xs) auto

lemma split_at_first: "c \<notin> set xs \<Longrightarrow> split c (xs @ c # ys) = xs # split c ys"
  by (induction xs) auto

lemma lazy_to_semicolon_found:
  "\<forall>x\<in>set m. x \<noteq> CHR '';'' \<and> \<not> is_line_terminator x \<Longrightarrow>
   lazy_to_semicolon (m @ CHR '';'' # rest) = Some m"
  by (induction m) auto

lemma match_mime_data:
  "\<forall>x\<in>set m. x \<noteq> CHR '';'' \<and> \<not> is_line_terminator x \<Longrightarrow>
   match_mime (''data:'' @ m @ CHR '';'' # rest) = Some m"
  by (simp add: lazy_to_semicolon_found)

lemma fileToPart_Readable: "fileToPart (Readable u) = dataUrlToPart u"
  by (simp add: fileToPart_def dataUrlToPart_def)

lemma dataUrlToPart_parsed:
  assumes "m \<noteq> []"
    and "\<forall>x\<in>set m. x \<noteq> CHR '';'' \<and> x \<noteq> CHR '','' \<and> \<not> is_line_terminator x"
    and "CHR '','' \<notin> set params"
    and "CHR '','' \<notin> set payload"
  shows "dataUrlToPart (''data:'' @ m @ '';'' @ params @ '','' @ payload) =
           Inr \<lparr>inlineData = Some \<lparr>mimeType = m, data = payload\<rparr>, part_text = None\<rparr>"
proof -
  define header where "header = ''data:'' @ m @ CHR '';'' # params"
  have url: "''data:'' @ m @ '';'' @ params @ '','' @ payload = header @ CHR '','' # payload"
    by (simp add: header_def)
  have "CHR '','' \<notin> set header"
    using assms(2,3) by (auto simp: header_def)
  then have arr: "split CHR '','' (header @ CHR '','' # payload) = [header, payload]"
    using assms(4) by (simp add: split_at_first split_no_separator)
  have "match_mime header = Some m"
    unfolding header_def using assms(2) by (intro match_mime_data) blast
  with arr assms(1) show ?thesis
    unfolding url by (simp add: dataUrlToPart_def truthy_def)
qed

text \<open>
  Claim C7, as amended. For a data URL \<open>data:<mimeType>;<parameters>,<payload>\<close>
  with a MIME type that is not empty and free of semicolons, commas and line
  breaks, parameters free of commas and a payload free of commas, \<open>dataUrlToPart\<close>
  returns the part whose \<open>inlineData\<close> has this MIME type and this payload, and so
  does \<open>fileToPart\<close> on a file that reads as this data URL.
\<close>

theorem data_url_encoded:
  assumes "m \<noteq> []"
    and "\<forall>x\<in>set m. x \<noteq> CHR '';'' \<and> x \<noteq> CHR '','' \<and> \<not> is_line_terminator x"
    and "CHR '','' \<notin> set params"
    and "CHR '','' \<notin> set payload"
  shows "dataUrlToPart (''data:'' @ m @ '';'' @ params @ '','' @ payload) =
           Inr \<lparr>inlineData = Some \<lparr>mimeType = m, data = payload\<rparr>, part_text = None\<rparr>
         \<and> fileToPart (Readable (''data:'' @ m @ '';'' @ params @ '','' @ payload)) =
           Inr \<lparr>inlineData = Some \<lparr>mimeType = m, data = payload\<rparr>, part_text = None\<rparr>"
  using dataUrlToPart_parsed [OF assms] by (simp add: fileToPart_Readable)

theorem data_url_encoded_witness:
  "dataUrlToPart ''data:text/plain;charset=utf-8;base64,aGVsbG8='' =
     Inr \<lparr>inlineData = Some \<lparr>mimeType = ''text/plain'', data = ''aGVsbG8=''\<rparr>, part_text = None\<rparr>
   \<and> fileToPart (Readable ''data:text/plain;charset=utf-8;base64,aGVsbG8='') =
     Inr \<lparr>inlineData = Some \<lparr>mimeType = ''text/plain'', data = ''aGVsbG8=''\<rparr>, part_text = None\<rparr>"
  using data_url_encoded [of "''text/plain''" "''charset=utf-8;base64''" "''aGVsbG8=''"]
  by (simp add: is_line_terminator_def)

text \<open>
  The claim as stated fails on a payload with a comma: \<open>split(',')\<close> cuts the
  payload too, and \<open>arr[1]\<close> is only its part before the next comma.
\<close>

theorem data_url_encoded_counterexample:
  "dataUrlToPart ''data:text/plain;charset=utf-8,a,b'' =
     Inr \<lparr>inlineData = Some \<lparr>mimeType = ''text/plain'', data = ''a''\<rparr>, part_text = None\<rparr>
   \<and> dataUrlToPart ''data:text/plain;charset=utf-8,a,b'' \<noteq>
     Inr \<lparr>inlineData = Some \<lparr>mimeType = ''text/plain'', data = ''a,b''\<rparr>, part_text = None\<rparr>
   \<and> fileToPart (Readable ''data:text/plain;charset=utf-8,a,b'') \<noteq>
     Inr \<lparr>inlineData = Some \<lparr>mimeType = ''text/plain'', data = ''a,b''\<rparr>, part_text = None\<rparr>"
  by (simp add: fileToPart_Readable dataUrlToPart_def truthy_def is_line_terminator_def)

text \<open>
  Claim C9, as amended. For inline data whose MIME type is not empty and free of
  semicolons, commas and line breaks, and whose data is free of commas,
  \<open>dataUrlToPart\<close> applied to the data URL that \<open>generateImageFromImageAndText\<close>
  builds from it gives back the part with exactly this inline data.
\<close>

theorem data_url_round_trip:
  assumes "mimeType d \<noteq> []"
    and "\<forall>x\<in>set (mimeType d). x \<noteq> CHR '';'' \<and> x \<noteq> CHR '','' \<and> \<not> is_line_terminator x"
    and "CHR '','' \<notin> set (data d)"
  shows "dataUrlToPart (data_url d) = Inr \<lparr>inlineData = Some d, part_text = None\<rparr>"
proof -
  have "dataUrlToPart (''data:'' @ mimeType d @ '';'' @ ''base64'' @ '','' @ data d) =
          Inr \<lparr>inlineData = Some \<lparr>mimeType = mimeType d, data = data d\<rparr>, part_text = None\<rparr>"
    using assms by (intro dataUrlToPart_parsed) auto
  then show ?thesis
    by (simp add: data_url_def)
qed

theorem data_url_round_trip_witness:
  "dataUrlToPart (data_url png) = Inr \<lparr>inlineData = Some png, part_text = None\<rparr>
   \<and> data_url png = ''data:image/png;base64,QUJD''"
  using data_url_round_trip [of png]
  by (simp add: png_def is_line_terminator_def data_url_def)

text \<open>
  The claim as stated fails on the empty MIME type, which \<open>dataUrlToPart\<close>
  refuses, and on a MIME type with a line break, which \<open>.\<close> does not match.
\<close>

theorem data_url_round_trip_counterexample:
  "dataUrlToPart (data_url \<lparr>mimeType = [], data = ''QUJD''\<rparr>) =
     Inl (Error ''Could not parse MIME type from data URL'')
   \<and> dataUrlToPart (data_url \<lparr>mimeType = [CHR ''a'', CHR 0x0A, CHR ''b''], data = ''QUJD''\<rparr>) =
     Inl (Error ''Could not parse MIME type from data URL'')"
  by (simp add: data_url_def dataUrlToPart_def truthy_def is_line_terminator_def)

section \<open>Properties of the handlers\<close>

lemma handler_start_facts:
  "handler_start h s = (s1, Some c) \<Longrightarrow>
   isLoading s1 \<and> generatedImages s1 = generatedImages s \<and> activeImageUrl s1 = activeImageUrl s"
  by (cases h)
     (auto simp: handleGenerate_start_def handleUpscale_start_def handleApplyFilter_start_def
        handleEditWithPrompt_start_def handleChangeAspectRatio_start_def editing_call_def Let_def
      split: if_splits option.splits)

lemma await_failure: "call_failure ai c = Some e \<Longrightarrow> handleGenerate_await ai c = Inl e"
  by (cases c) (auto split: sum.splits)

lemma editing_call_Some:
  "editing_call started = (s1, Some c) \<Longrightarrow>
   \<exists>url p. started = (s1, Some (url, p)) \<and> c = ImageAndText (DataUrl url) p"
  by (auto simp: editing_call_def split: prod.splits option.splits)

lemma run_handler_failed:
  assumes "handler_start h s = (s1, Some c)" and "call_failure ai c = Some e"
  shows "run_handler ai h s = catch_finally e s1"
proof (cases h)
  case HandleGenerate
  with assms show ?thesis
    by (simp add: handleGenerate_def handleGenerate_finish_def await_failure)
next
  case HandleUpscale
  with assms(1) obtain url p where "handleUpscale_start s = (s1, Some (url, p))"
    and "c = ImageAndText (DataUrl url) p"
    by (auto dest: editing_call_Some)
  with assms(2) HandleUpscale show ?thesis
    by (simp add: handleUpscale_def handleUpscale_finish_def split: sum.splits)
next
  case (HandleApplyFilter filterPrompt)
  with assms(1) obtain url p where "handleApplyFilter_start filterPrompt s = (s1, Some (url, p))"
    and "c = ImageAndText (DataUrl url) p"
    by (auto dest: editing_call_Some)
  with assms(2) HandleApplyFilter show ?thesis
    by (simp add: handleApplyFilter_def handleApplyFilter_finish_def split: sum.splits)
next
  case HandleEditWithPrompt
  with assms(1) obtain url p where "handleEditWithPrompt_start s = (s1, Some (url, p))"
    and "c = ImageAndText (DataUrl url) p"
    by (auto dest: editing_call_Some)
  with assms(2) HandleEditWithPrompt show ?thesis
    by (simp add: handleEditWithPrompt_def handleEditWithPrompt_finish_def split: sum.splits)
next
  case (HandleChangeAspectRatio newAspectRatio)
  with assms(1) obtain url p
    where "handleChangeAspectRatio_start newAspectRatio s = (s1, Some (url, p))"
    and "c = ImageAndText (DataUrl url) p"
    by (auto dest: editing_call_Some)
  with assms(2) HandleChangeAspectRatio show ?thesis
    by (simp add: handleChangeAspectRatio_def handleChangeAspectRatio_finish_def split: sum.splits)
qed

lemma finish_not_loading:
  "\<not> isLoading (handleGenerate_finish s settled)"
  "\<not> isLoading (handleUpscale_finish s settled')"
  "\<not> isLoading (handleApplyFilter_finish s settled')"
  "\<not> isLoading (handleEditWithPrompt_finish s settled')"
  "\<not> isLoading (handleChangeAspectRatio_finish s settled')"
  by (simp_all add: handleGenerate_finish_def handleUpscale_finish_def handleApplyFilter_finish_def
      handleEditWithPrompt_finish_def handleChangeAspectRatio_finish_def sync_active_image_def
      catch_finally_def split: sum.splits)

lemma run_handler_not_loading:
  assumes "handler_start h s = (s1, Some c)"
  shows "\<not> isLoading (run_handler ai h s)"
proof (cases h)
  case HandleGenerate
  with assms show ?thesis
    by (simp add: handleGenerate_def finish_not_loading)
next
  case HandleUpscale
  with assms show ?thesis
    by (auto simp: handleUpscale_def finish_not_loading dest!: editing_call_Some)
next
  case (HandleApplyFilter filterPrompt)
  with assms show ?thesis
    by (auto simp: handleApplyFilter_def finish_not_loading dest!: editing_call_Some)
next
  case HandleEditWithPrompt
  with assms show ?thesis
    by (auto simp: handleEditWithPrompt_def finish_not_loading dest!: editing_call_Some)
next
  case (HandleChangeAspectRatio newAspectRatio)
  with assms show ?thesis
    by (auto simp: handleChangeAspectRatio_def finish_not_loading dest!: editing_call_Some)
qed

text \<open>
  Claim C8, as amended. When one of the five handlers reaches its service call,
  \<open>isLoading\<close> is set in the state at the call and cleared in the state the
  handler ends in, whether the call resolved or threw. When the call threw, the
  final state is the state at the call with \<open>isLoading\<close> cleared and \<open>error\<close> set
  to the message of the thrown value, or to "An unknown error occurred." when
  the thrown value has no message or an empty one; \<open>generatedImages\<close> and
  \<open>activeImageUrl\<close> are what they were before the handler ran.
\<close>

theorem loading_and_error_flags:
  assumes "handler_start h s = (s1, Some c)"
  shows "isLoading s1
         \<and> \<not> isLoading (run_handler ai h s)
         \<and> (\<forall>e. call_failure ai c = Some e \<longrightarrow>
               run_handler ai h s =
                 s1\<lparr>error := Some (or_else (message e) ''An unknown error occurred.''),
                    isLoading := False\<rparr>
               \<and> generatedImages (run_handler ai h s) = generatedImages s
               \<and> activeImageUrl (run_handler ai h s) = activeImageUrl s)"
proof -
  note start = handler_start_facts [OF assms]
  have "run_handler ai h s = catch_finally e s1" if "call_failure ai c = Some e" for e
    using assms that by (rule run_handler_failed)
  with start run_handler_not_loading [OF assms, of ai] show ?thesis
    by (simp add: catch_finally_def)
qed

lemma upscale_rejected:
  "call_failure (rejecting e) (ImageAndText (DataUrl ''data:image/png;base64,QUJD'') p) = Some e"
  using encode_png
  by (simp add: generateImageFromImageAndText_def rejecting_def)

lemma upscale_started:
  "handler_start HandleUpscale showing_image =
     (showing_image\<lparr>isLoading := True, error := None, loadingMessage := ''Upscaling image...''\<rparr>,
      Some (ImageAndText (DataUrl ''data:image/png;base64,QUJD'') upscalePrompt))"
  by (simp add: handleUpscale_start_def editing_call_def showing_image_def truthy_def)

theorem loading_and_error_flags_witness:
  "handler_start HandleUpscale showing_image =
     (showing_image\<lparr>isLoading := True, error := None, loadingMessage := ''Upscaling image...''\<rparr>,
      Some (ImageAndText (DataUrl ''data:image/png;base64,QUJD'') upscalePrompt))
   \<and> call_failure (rejecting (Error ''Failed to fetch''))
         (ImageAndText (DataUrl ''data:image/png;base64,QUJD'') upscalePrompt)
       = Some (Error ''Failed to fetch'')
   \<and> \<not> isLoading (run_handler (rejecting (Error ''Failed to fetch'')) HandleUpscale showing_image)
   \<and> error (run_handler (rejecting (Error ''Failed to fetch'')) HandleUpscale showing_image)
       = Some ''Failed to fetch''
   \<and> generatedImages (run_handler (rejecting (Error ''Failed to fetch'')) HandleUpscale showing_image)
       = [''data:image/png;base64,QUJD'']
   \<and> activeImageUrl (run_handler (rejecting (Error ''Failed to fetch'')) HandleUpscale showing_image)
       = Some ''data:image/png;base64,QUJD''"
  using loading_and_error_flags [OF upscale_started, of "rejecting (Error ''Failed to fetch'')"]
    upscale_started upscale_rejected [of "Error ''Failed to fetch''" upscalePrompt]
  by (simp add: showing_image_def initial_state_def truthy_def)

text \<open>
  The claim as stated fails where the thrown value has an empty message or
  none: the flag then holds the fixed text, not the failure's message. An
  \<open>Error\<close> with the empty message, thrown by the service call of
  \<open>handleUpscale\<close>; and the event a \<open>FileReader\<close> rejects with, in
  \<open>handleGenerate\<close> on an uploaded file that cannot be read.
\<close>

theorem loading_and_error_flags_counterexample:
  "call_failure (rejecting (Error [])) (ImageAndText (DataUrl ''data:image/png;base64,QUJD'') upscalePrompt)
     = Some (Error [])
   \<and> error (run_handler (rejecting (Error [])) HandleUpscale showing_image)
       = Some ''An unknown error occurred.''
   \<and> error (run_handler (rejecting (Error [])) HandleUpscale showing_image)
       \<noteq> message (Error [])
   \<and> call_failure (drawing []) (ImageAndText (FileInput Unreadable) []) = Some ProgressEvent
   \<and> error (run_handler (drawing []) HandleGenerate (initial_state\<lparr>uploadedImage := Some Unreadable\<rparr>))
       = Some ''An unknown error occurred.''
   \<and> error (run_handler (drawing []) HandleGenerate (initial_state\<lparr>uploadedImage := Some Unreadable\<rparr>))
       \<noteq> message ProgressEvent"
proof -
  have "run_handler (rejecting (Error [])) HandleUpscale showing_image =
          catch_finally (Error [])
            (showing_image\<lparr>isLoading := True, error := None, loadingMessage := ''Upscaling image...''\<rparr>)"
    using upscale_started upscale_rejected by (rule run_handler_failed)
  then have upscale: "error (run_handler (rejecting (Error [])) HandleUpscale showing_image)
       = Some ''An unknown error occurred.''"
    by (simp add: catch_finally_def truthy_def)
  have unreadable: "call_failure (drawing []) (ImageAndText (FileInput Unreadable) []) = Some ProgressEvent"
    by (simp add: generateImageFromImageAndText_def encode_input_def fileToPart_def)
  have "handler_start HandleGenerate (initial_state\<lparr>uploadedImage := Some Unreadable\<rparr>) =
          (initial_state\<lparr>uploadedImage := Some Unreadable, isLoading := True, error := None,
             loadingMessage := ''AI is editing...''\<rparr>,
           Some (ImageAndText (FileInput Unreadable) []))"
    by (simp add: handleGenerate_start_def initial_state_def trim_def truthy_def)
  then have "run_handler (drawing []) HandleGenerate (initial_state\<lparr>uploadedImage := Some Unreadable\<rparr>) =
          catch_finally ProgressEvent
            (initial_state\<lparr>uploadedImage := Some Unreadable, isLoading := True, error := None,
               loadingMessage := ''AI is editing...''\<rparr>)"
    using unreadable by (rule run_handler_failed)
  then have generate: "error (run_handler (drawing []) HandleGenerate (initial_state\<lparr>uploadedImage := Some Unreadable\<rparr>))
       = Some ''An unknown error occurred.''"
    by (simp add: catch_finally_def)
  show ?thesis
    using upscale generate unreadable upscale_rejected [of "Error []" upscalePrompt]
    by simp
qed

lemma finish_keeps_history:
  "promptHistory (handleGenerate_finish s settled) = promptHistory s"
  "promptHistory (handleUpscale_finish s settled') = promptHistory s"
  "promptHistory (handleApplyFilter_finish s settled') = promptHistory s"
  "promptHistory (handleEditWithPrompt_finish s settled') = promptHistory s"
  "promptHistory (handleChangeAspectRatio_finish s settled') = promptHistory s"
  by (simp_all add: handleGenerate_finish_def handleUpscale_finish_def handleApplyFilter_finish_def
      handleEditWithPrompt_finish_def handleChangeAspectRatio_finish_def sync_active_image_def
      catch_finally_def split: sum.splits)

lemma handleGenerate_start_history:
  "promptHistory (fst (handleGenerate_start s)) =
     (if trim (prompt s) \<noteq> [] \<and> prompt s \<notin> set (promptHistory s)
      then take 10 (prompt s # promptHistory s)
      else promptHistory s)"
  by (auto simp: handleGenerate_start_def Let_def truthy_def split: option.splits)

lemma handleGenerate_history:
  "promptHistory (handleGenerate ai s) = promptHistory (fst (handleGenerate_start s))"
  by (cases "handleGenerate_start s")
     (auto simp: handleGenerate_def finish_keeps_history split: option.splits)

lemma editing_start_history:
  "promptHistory (fst (editing_call (handleUpscale_start s))) = promptHistory s"
  "promptHistory (fst (editing_call (handleApplyFilter_start filterPrompt s))) = promptHistory s"
  "promptHistory (fst (editing_call (handleEditWithPrompt_start s))) = promptHistory s"
  "promptHistory (fst (editing_call (handleChangeAspectRatio_start newAspectRatio s))) = promptHistory s"
  by (auto simp: editing_call_def handleUpscale_start_def handleApplyFilter_start_def
      handleEditWithPrompt_start_def handleChangeAspectRatio_start_def split: option.splits)

lemma prepend_keeps_invariant:
  assumes "length xs \<le> 10" and "distinct xs" and "p \<notin> set xs"
  shows "length (take 10 (p # xs)) \<le> 10 \<and> distinct (take 10 (p # xs))"
proof -
  have "distinct (p # xs)"
    using assms(2,3) by simp
  then have "distinct (take 10 (p # xs))"
    by (rule distinct_take)
  then show ?thesis
    by simp
qed

lemma step_keeps_invariant:
  assumes "length (promptHistory s) \<le> 10" and "distinct (promptHistory s)"
  shows "length (promptHistory (step e s)) \<le> 10 \<and> distinct (promptHistory (step e s))"
proof (cases e)
  case (Start h)
  show ?thesis
  proof (cases h)
    case HandleGenerate
    with Start assms prepend_keeps_invariant [of "promptHistory s" "prompt s"] show ?thesis
      by (simp add: handleGenerate_start_history del: take_Suc_Cons)
  qed (use Start assms in \<open>simp_all add: editing_start_history\<close>)
qed (use assms in \<open>simp_all add: finish_keeps_history handleImageUpload_def
       handleRemoveUploadedImage_def split: option.splits prod.splits\<close>)

lemma run_keeps_invariant:
  "length (promptHistory s) \<le> 10 \<Longrightarrow> distinct (promptHistory s) \<Longrightarrow>
   length (promptHistory (run es s)) \<le> 10 \<and> distinct (promptHistory (run es s))"
proof (induction es arbitrary: s)
  case Nil
  then show ?case by simp
next
  case (Cons e es)
  from step_keeps_invariant [OF Cons.prems, of e] Cons.IH [of "step e s"]
  show ?case by simp
qed

text \<open>
  Claim C10. In every state the application reaches from its initial state,
  \<open>promptHistory\<close> has at most ten entries, none of them twice. \<open>handleGenerate\<close>
  leaves the list as it is unless the prompt is not blank after trimming and
  not in the list; then the prompt is put in front and the list cut to ten. So
  \<open>handleGenerate\<close> never makes a list without duplicates into one with them.
\<close>

theorem prompt_history_invariant:
  "length (promptHistory (run es initial_state)) \<le> 10
   \<and> distinct (promptHistory (run es initial_state))
   \<and> promptHistory (handleGenerate ai s) =
       (if trim (prompt s) \<noteq> [] \<and> prompt s \<notin> set (promptHistory s)
        then take 10 (prompt s # promptHistory s)
        else promptHistory s)
   \<and> (distinct (promptHistory s) \<longrightarrow> distinct (promptHistory (handleGenerate ai s)))"
proof -
  have "length (promptHistory initial_state) \<le> 10" and "distinct (promptHistory initial_state)"
    by (simp_all add: initial_state_def)
  then have reach: "length (promptHistory (run es initial_state)) \<le> 10
      \<and> distinct (promptHistory (run es initial_state))"
    by (rule run_keeps_invariant)
  have hist: "promptHistory (handleGenerate ai s) =
       (if trim (prompt s) \<noteq> [] \<and> prompt s \<notin> set (promptHistory s)
        then take 10 (prompt s # promptHistory s)
        else promptHistory s)"
    by (simp only: handleGenerate_history handleGenerate_start_history)
  have "distinct (promptHistory (handleGenerate ai s))" if d: "distinct (promptHistory s)"
  proof (cases "trim (prompt s) \<noteq> [] \<and> prompt s \<notin> set (promptHistory s)")
    case True
    with d have "distinct (prompt s # promptHistory s)" by simp
    then have "distinct (take 10 (prompt s # promptHistory s))" by (rule distinct_take)
    with True hist show ?thesis by (simp del: take_Suc_Cons)
  next
    case False
    with d hist show ?thesis by auto
  qed
  with reach hist show ?thesis
    by blast
qed

theorem prompt_history_invariant_witness:
  "promptHistory (run [SetPrompt ''A red fox'', Start HandleGenerate,
                       GenerateSettled (Inr [''data:image/png;base64,QUJD'']),
                       SetPrompt ''A red fox'', Start HandleGenerate,
                       SetPrompt ''   '', ImageUpload (Some (Unreadable, ''blob:1'')),
                       Start HandleGenerate] initial_state) = [''A red fox'']
   \<and> length (promptHistory (run [SetPrompt ''A red fox'', Start HandleGenerate,
                       GenerateSettled (Inr [''data:image/png;base64,QUJD'']),
                       SetPrompt ''A red fox'', Start HandleGenerate,
                       SetPrompt ''   '', ImageUpload (Some (Unreadable, ''blob:1'')),
                       Start HandleGenerate] initial_state)) \<le> 10
   \<and> distinct (promptHistory (handleGenerate (drawing [''QUJD''])
                  (initial_state\<lparr>prompt := ''A red fox'', promptHistory := [''A blue fox'']\<rparr>)))
   \<and> promptHistory (handleGenerate (drawing [''QUJD''])
                  (initial_state\<lparr>prompt := ''A red fox'', promptHistory := [''A blue fox'']\<rparr>))
       = [''A red fox'', ''A blue fox'']"
  using prompt_history_invariant
    [of "[SetPrompt ''A red fox'', Start HandleGenerate,
          GenerateSettled (Inr [''data:image/png;base64,QUJD'']),
          SetPrompt ''A red fox'', Start HandleGenerate,
          SetPrompt ''   '', ImageUpload (Some (Unreadable, ''blob:1'')),
          Start HandleGenerate]"
        "drawing [''QUJD'']"
        "initial_state\<lparr>prompt := ''A red fox'', promptHistory := [''A blue fox'']\<rparr>"]
  by (simp add: initial_state_def handleGenerate_start_def handleGenerate_finish_def
      sync_active_image_def handleImageUpload_def trim_def is_ws_def truthy_def Let_def)

end
